theory Spec2Isabelle
  imports Main "HOL-Library.Multiset"
begin

section \<open>Data model (interfaces of src/index.tsx)\<close>

text \<open>
  Every TypeScript interface is a record; the field names carry a prefix where two
  interfaces share a name. The \<open>type\<close> tag of an exercise is the constructor of
  \<open>Exercise\<close>. An optional field (\<open>f?: T\<close>) is an \<open>option\<close>, \<open>None\<close> being
  \<open>undefined\<close>.
\<close>

record VocabularyItem =
  voc_german :: string
  voc_english :: string

record PhraseItem =
  phr_german :: string
  phr_english :: string

record SingleBlankExercise =
  sb_sentence :: string
  sb_englishSentence :: string
  sb_hint :: string
  sb_options :: "string list"
  sb_correctAnswer :: string

record DoubleBlankExercise =
  db_sentence :: string
  db_englishSentence :: string
  db_hint :: string
  db_options1 :: "string list"
  db_correctAnswer1 :: string
  db_options2 :: "string list"
  db_correctAnswer2 :: string

record TripleBlankExercise =
  tb_sentence :: string
  tb_englishSentence :: string
  tb_hint :: string
  tb_options1 :: "string list"
  tb_correctAnswer1 :: string
  tb_options2 :: "string list"
  tb_correctAnswer2 :: string
  tb_options3 :: "string list"
  tb_correctAnswer3 :: string

record SentenceScrambleExercise =
  ss_englishSentence :: string
  ss_correctSentence :: string
  ss_scrambledWords :: "string list"

datatype Speaker = Agent | User

record DialogueTurn =
  speaker :: Speaker
  line :: "string option"
  prompt :: "string option"
  options :: "string list option"
  correctAnswer :: "string option"

record DialogueSimulationExercise =
  ds_scenario :: string
  ds_englishSentence :: string
  dialogue :: "DialogueTurn list"

record ImageAssociationExercise =
  ia_imageUrl :: string
  ia_englishSentence :: string
  ia_options :: "string list"
  ia_correctAnswer :: string

datatype Exercise =
    SingleBlank SingleBlankExercise
  | DoubleBlank DoubleBlankExercise
  | TripleBlank TripleBlankExercise
  | SentenceScramble SentenceScrambleExercise
  | DialogueSimulation DialogueSimulationExercise
  | ImageAssociation ImageAssociationExercise

record ExerciseBlock =
  blk_title :: string
  blk_exercises :: "Exercise list"

record Summary =
  vocabulary :: "VocabularyItem list"
  phrases :: "PhraseItem list"
  grammarTip :: string

record LessonContent =
  summary :: Summary
  exerciseBlocks :: "ExerciseBlock list"
  exercises2 :: "Exercise list option"
  exercises3 :: "Exercise list option"
  exercises4 :: "Exercise list option"

record Lesson =
  les_id :: string
  les_name :: string
  les_description :: string
  les_icon :: string
  les_file :: "string option"
  les_content :: "LessonContent option"

record Level =
  lev_id :: string
  lev_name :: string
  lev_description :: string
  lev_icon :: string
  lev_lessons :: "Lesson list"

record AppData =
  levels :: "Level list"

datatype LessonView =
    selection | practice0 | practice1 (blockIndex: nat) | practice2 | practice3 | practice4

datatype View = ViewLevels | ViewLessons | ViewLesson

subsection \<open>JavaScript values of the answer store\<close>

text \<open>
  \<open>type Answer = string | (string | null)[] | null\<close>. A slot of an inner array is
  \<open>null\<close> or a string; reading past the end of an array, or reading a hole left by a
  write past the end, gives \<open>undefined\<close>, so \<open>JUndefined\<close> stands for both in an
  inner array (every operation the program applies to an inner array, index, spread,
  \<open>includes\<close>, \<open>join\<close>, \<open>length\<close>, \<open>push\<close>, \<open>splice\<close>, treats the two alike).
  In the outer array \<open>userAnswers\<close> a hole is kept apart from \<open>undefined\<close>, because
  \<open>forEach\<close> and \<open>some\<close> skip holes and visit \<open>undefined\<close>.
  A string is a list of characters, one \<open>char\<close> for each unit JavaScript iterates.
  Indices are natural numbers.
\<close>

datatype jsval = JUndefined | JNull | JString string

datatype Answer = AHole | AUndefined | ANull | AString string | AArray "jsval list"

datatype error = TypeError

text \<open>\<open>xs[i]\<close> on the outer array: a hole or an index out of range reads \<open>undefined\<close>.\<close>

definition array_get :: "Answer list \<Rightarrow> nat \<Rightarrow> Answer" where
  "array_get xs i =
     (if i < length xs then (case xs ! i of AHole \<Rightarrow> AUndefined | a \<Rightarrow> a) else AUndefined)"

text \<open>\<open>[...xs]\<close> on the outer array: the copy has \<open>undefined\<close> where \<open>xs\<close> has a hole.\<close>

definition spread :: "Answer list \<Rightarrow> Answer list" where
  "spread xs = map (\<lambda>a. case a of AHole \<Rightarrow> AUndefined | _ \<Rightarrow> a) xs"

text \<open>\<open>xs[i] = v\<close>: a write past the end extends the array, leaving holes.\<close>

definition array_set :: "'a \<Rightarrow> 'a list \<Rightarrow> nat \<Rightarrow> 'a \<Rightarrow> 'a list" where
  "array_set hole xs i v =
     (if i < length xs then xs[i := v] else xs @ replicate (i - length xs) hole @ [v])"

text \<open>\<open>t[i]\<close> on an inner array.\<close>

definition slot_get :: "jsval list \<Rightarrow> nat \<Rightarrow> jsval" where
  "slot_get t i = (if i < length t then t ! i else JUndefined)"

text \<open>\<open>currentExercises[index]\<close>: \<open>None\<close> is \<open>undefined\<close>.\<close>

definition exercise_at :: "Exercise list \<Rightarrow> nat \<Rightarrow> Exercise option" where
  "exercise_at exs i = (if i < length exs then Some (exs ! i) else None)"

text \<open>An optional string field as a value: a missing field reads \<open>undefined\<close>.\<close>

fun opt_val :: "string option \<Rightarrow> jsval" where
  "opt_val None = JUndefined"
| "opt_val (Some s) = JString s"

text \<open>\<open>Array.isArray(answer)\<close>.\<close>

fun isArray :: "Answer \<Rightarrow> bool" where
  "isArray (AArray t) = True"
| "isArray _ = False"

text \<open>\<open>answer[i]\<close> on an answer that passed \<open>Array.isArray\<close>; on a string it is the
  one-character string at \<open>i\<close>, on \<open>null\<close> and \<open>undefined\<close> a TypeError.\<close>

fun answer_slot :: "Answer \<Rightarrow> nat \<Rightarrow> error + jsval" where
  "answer_slot (AArray t) i = Inr (slot_get t i)"
| "answer_slot (AString s) i = Inr (if i < length s then JString [s ! i] else JUndefined)"
| "answer_slot _ i = Inl TypeError"

text \<open>\<open>[...v]\<close> on an answer: an array is copied, a string is split into its
  characters, \<open>null\<close> and \<open>undefined\<close> are not iterable.\<close>

fun spread_answer :: "Answer \<Rightarrow> error + jsval list" where
  "spread_answer (AArray t) = Inr t"
| "spread_answer (AString s) = Inr (map (\<lambda>c. JString [c]) s)"
| "spread_answer _ = Inl TypeError"

text \<open>Truthiness of an answer, for \<open>answer || default\<close>.\<close>

fun truthy :: "Answer \<Rightarrow> bool" where
  "truthy (AArray t) = True"
| "truthy (AString s) = (s \<noteq> [])"
| "truthy _ = False"

text \<open>\<open>t.join(sep)\<close>: \<open>null\<close> and \<open>undefined\<close> elements are written as the empty string.\<close>

fun elem_str :: "jsval \<Rightarrow> string" where
  "elem_str (JString s) = s"
| "elem_str _ = []"

fun join :: "string \<Rightarrow> jsval list \<Rightarrow> string" where
  "join sep [] = []"
| "join sep [x] = elem_str x"
| "join sep (x # y # ys) = elem_str x @ sep @ join sep (y # ys)"

text \<open>\<open>xs.every((x, i) => p x i)\<close>, the index starting at \<open>i\<close>.\<close>

fun every :: "('a \<Rightarrow> nat \<Rightarrow> bool) \<Rightarrow> 'a list \<Rightarrow> nat \<Rightarrow> bool" where
  "every p [] i = True"
| "every p (x # xs) i = (p x i \<and> every p xs (Suc i))"

section \<open>Application state\<close>

text \<open>
  The \<open>useState\<close> cells of \<open>App\<close> that the handlers read or write. The exercise set
  \<open>currentExercises\<close> is derived at each render from the selected lesson and the lesson
  view (\<open>getCurrentExercises\<close>); the handlers close over it, so they take it as an
  argument.
\<close>

record AppState =
  appData :: "AppData option"
  loadingLesson :: bool
  loadedLessons :: "string \<rightharpoonup> Lesson"
  view :: View
  selectedLevelId :: "string option"
  selectedLessonId :: "string option"
  lessonView :: LessonView
  userAnswers :: "Answer list"
  checked :: bool
  score :: nat
  visibleTranslations :: "nat \<rightharpoonup> bool"
  visibleHints :: "nat \<rightharpoonup> bool"

definition getCurrentExercises :: "AppState \<Rightarrow> Exercise list" where
  "getCurrentExercises s =
     (case selectedLessonId s of None \<Rightarrow> []
      | Some lid \<Rightarrow>
        (case (if lid = [] then None else loadedLessons s lid) of None \<Rightarrow> []
         | Some selectedLesson \<Rightarrow>
           (case les_content selectedLesson of None \<Rightarrow> []
            | Some content \<Rightarrow>
              (case lessonView s of
                 practice1 bi \<Rightarrow>
                   (if bi < length (exerciseBlocks content)
                    then blk_exercises (exerciseBlocks content ! bi) else [])
               | practice2 \<Rightarrow> (case exercises2 content of None \<Rightarrow> [] | Some exs \<Rightarrow> exs)
               | practice3 \<Rightarrow> (case exercises3 content of None \<Rightarrow> [] | Some exs \<Rightarrow> exs)
               | practice4 \<Rightarrow> (case exercises4 content of None \<Rightarrow> [] | Some exs \<Rightarrow> exs)
               | _ \<Rightarrow> []))))"

section \<open>Answer store: initializeAnswers\<close>

definition userTurns :: "DialogueSimulationExercise \<Rightarrow> DialogueTurn list" where
  "userTurns ex = filter (\<lambda>turn. speaker turn = User) (dialogue ex)"

fun initialAnswer :: "Exercise \<Rightarrow> Answer" where
  "initialAnswer (DoubleBlank ex) = AArray [JNull, JNull]"
| "initialAnswer (TripleBlank ex) = AArray [JNull, JNull, JNull]"
| "initialAnswer (SentenceScramble ex) = AArray []"
| "initialAnswer (DialogueSimulation ex) = AArray (replicate (length (userTurns ex)) JNull)"
| "initialAnswer _ = ANull"

definition initializeAnswers :: "Exercise list \<Rightarrow> Answer list" where
  "initializeAnswers exercises = map initialAnswer exercises"

section \<open>Grading: checkAnswers\<close>

text \<open>The test that guards \<open>currentScore++\<close> in the callback of \<open>checkAnswers\<close>.\<close>

fun gradeExercise :: "Exercise \<Rightarrow> Answer \<Rightarrow> bool" where
  "gradeExercise (SingleBlank ex) answer = (answer = AString (sb_correctAnswer ex))"
| "gradeExercise (ImageAssociation ex) answer = (answer = AString (ia_correctAnswer ex))"
| "gradeExercise (DoubleBlank ex) answer =
     (case answer of
        AArray t \<Rightarrow> slot_get t 0 = JString (db_correctAnswer1 ex)
                  \<and> slot_get t 1 = JString (db_correctAnswer2 ex)
      | _ \<Rightarrow> False)"
| "gradeExercise (TripleBlank ex) answer =
     (case answer of
        AArray t \<Rightarrow> slot_get t 0 = JString (tb_correctAnswer1 ex)
                  \<and> slot_get t 1 = JString (tb_correctAnswer2 ex)
                  \<and> slot_get t 2 = JString (tb_correctAnswer3 ex)
      | _ \<Rightarrow> False)"
| "gradeExercise (SentenceScramble ex) answer =
     (case answer of
        AArray t \<Rightarrow> join '' '' t = ss_correctSentence ex
      | _ \<Rightarrow> False)"
| "gradeExercise (DialogueSimulation ex) answer =
     every (\<lambda>turn turnIndex.
              case answer of
                AArray t \<Rightarrow> slot_get t turnIndex = opt_val (correctAnswer turn)
              | _ \<Rightarrow> False)
           (userTurns ex) 0"

text \<open>
  \<open>userAnswers.forEach((answer, index) => ...)\<close>: holes are skipped; reading
  \<open>exercise.type\<close> of a missing exercise throws.
\<close>

fun checkAnswers_forEach :: "Exercise list \<Rightarrow> nat \<Rightarrow> Answer list \<Rightarrow> nat \<Rightarrow> error + nat" where
  "checkAnswers_forEach exs index [] currentScore = Inr currentScore"
| "checkAnswers_forEach exs index (answer # rest) currentScore =
     (if answer = AHole then checkAnswers_forEach exs (Suc index) rest currentScore
      else case exercise_at exs index of
             None \<Rightarrow> Inl TypeError
           | Some exercise \<Rightarrow>
               checkAnswers_forEach exs (Suc index) rest
                 (if gradeExercise exercise answer then currentScore + 1 else currentScore))"

definition checkAnswers :: "Exercise list \<Rightarrow> AppState \<Rightarrow> error + AppState" where
  "checkAnswers currentExercises s =
     (case checkAnswers_forEach currentExercises 0 (userAnswers s) 0 of
        Inl e \<Rightarrow> Inl e
      | Inr currentScore \<Rightarrow> Inr (s\<lparr>score := currentScore, checked := True\<rparr>))"

definition resetQuiz :: "Exercise list \<Rightarrow> AppState \<Rightarrow> AppState" where
  "resetQuiz exercises s =
     s\<lparr>userAnswers := initializeAnswers exercises, checked := False, score := 0,
       visibleTranslations := Map.empty, visibleHints := Map.empty\<rparr>"

section \<open>Answer store mutators\<close>

fun isBlankTuple :: "Exercise \<Rightarrow> bool" where
  "isBlankTuple (DoubleBlank ex) = True"
| "isBlankTuple (TripleBlank ex) = True"
| "isBlankTuple _ = False"

fun defaultTuple :: "Exercise \<Rightarrow> jsval list" where
  "defaultTuple (DoubleBlank ex) = [JNull, JNull]"
| "defaultTuple _ = [JNull, JNull, JNull]"

text \<open>\<open>handleAnswerSelect(exerciseIndex, selectedOption, blankIndex?)\<close>.\<close>

definition handleAnswerSelect ::
  "Exercise list \<Rightarrow> nat \<Rightarrow> string \<Rightarrow> nat option \<Rightarrow> AppState \<Rightarrow> error + AppState" where
  "handleAnswerSelect currentExercises exerciseIndex selectedOption blankIndex s =
     (if checked s then Inr s
      else
        let newAnswers = spread (userAnswers s) in
        case exercise_at currentExercises exerciseIndex of
          None \<Rightarrow> Inl TypeError
        | Some exercise \<Rightarrow>
            (case (isBlankTuple exercise, blankIndex) of
               (True, Some bi) \<Rightarrow>
                 let stored = array_get newAnswers exerciseIndex;
                     currentTuple =
                       (if truthy stored then stored else AArray (defaultTuple exercise))
                 in (case spread_answer currentTuple of
                       Inl e \<Rightarrow> Inl e
                     | Inr newTuple \<Rightarrow>
                         Inr (s\<lparr>userAnswers :=
                                array_set AHole newAnswers exerciseIndex
                                  (AArray (array_set JUndefined newTuple bi
                                             (JString selectedOption)))\<rparr>))
             | _ \<Rightarrow>
                 Inr (s\<lparr>userAnswers :=
                        array_set AHole newAnswers exerciseIndex (AString selectedOption)\<rparr>)))"

datatype WordSource = bank | sentence

text \<open>\<open>xs.splice(k, 1)\<close>: the element at \<open>k\<close> is removed, if there is one.\<close>

definition splice1 :: "'a list \<Rightarrow> nat \<Rightarrow> 'a list" where
  "splice1 xs k = take k xs @ drop (Suc k) xs"

text \<open>\<open>handleWordMove(exerciseIndex, word, source, wordIndexInSentence?)\<close>; it does not
  read \<open>currentExercises\<close>.\<close>

definition handleWordMove ::
  "nat \<Rightarrow> string \<Rightarrow> WordSource \<Rightarrow> nat option \<Rightarrow> AppState \<Rightarrow> error + AppState" where
  "handleWordMove exerciseIndex word source wordIndexInSentence s =
     (if checked s then Inr s
      else
        let newAnswers = spread (userAnswers s);
            stored = array_get newAnswers exerciseIndex
        in case spread_answer (if truthy stored then stored else AArray []) of
             Inl e \<Rightarrow> Inl e
           | Inr currentSentence \<Rightarrow>
               let moved =
                     (case source of
                        bank \<Rightarrow> currentSentence @ [JString word]
                      | sentence \<Rightarrow>
                          (case wordIndexInSentence of
                             Some k \<Rightarrow> splice1 currentSentence k
                           | None \<Rightarrow> currentSentence))
               in Inr (s\<lparr>userAnswers :=
                         array_set AHole newAnswers exerciseIndex (AArray moved)\<rparr>))"

text \<open>\<open>handleDialogueAnswer(exerciseIndex, userTurnIndex, choice)\<close>.\<close>

definition handleDialogueAnswer ::
  "nat \<Rightarrow> nat \<Rightarrow> string \<Rightarrow> AppState \<Rightarrow> error + AppState" where
  "handleDialogueAnswer exerciseIndex userTurnIndex choice s =
     (if checked s then Inr s
      else
        let newAnswers = spread (userAnswers s) in
        case spread_answer (array_get newAnswers exerciseIndex) of
          Inl e \<Rightarrow> Inl e
        | Inr currentDialogueAnswers \<Rightarrow>
            Inr (s\<lparr>userAnswers :=
                   array_set AHole newAnswers exerciseIndex
                     (AArray (array_set JUndefined currentDialogueAnswers userTurnIndex
                                (JString choice)))\<rparr>))"

section \<open>Word bank of a sentence-scramble exercise\<close>

text \<open>
  The \<open>bankWords\<close> of the practice-2 view: a copy of \<open>scrambledWords\<close> from which each
  word of the built sentence removes its first occurrence (\<open>indexOf\<close> then
  \<open>splice(i, 1)\<close>, which is \<open>remove1\<close>). \<open>indexOf\<close> finds no \<open>null\<close> or \<open>undefined\<close>
  among strings. A non-empty string in place of the built sentence has no \<open>forEach\<close>.
\<close>

fun takeFromBank :: "jsval \<Rightarrow> string list \<Rightarrow> string list" where
  "takeFromBank (JString wordInSentence) available = remove1 wordInSentence available"
| "takeFromBank _ available = available"

definition bankWords :: "SentenceScrambleExercise \<Rightarrow> Answer \<Rightarrow> error + string list" where
  "bankWords exercise stored =
     (if truthy stored then
        (case stored of
           AArray builtSentence \<Rightarrow> Inr (fold takeFromBank builtSentence (ss_scrambledWords exercise))
         | _ \<Rightarrow> Inl TypeError)
      else Inr (ss_scrambledWords exercise))"

section \<open>Completeness gate: isCheckButtonDisabled\<close>

text \<open>The callback of \<open>userAnswers.some\<close>, once the exercise is known to exist.\<close>

fun answerMissing :: "Exercise \<Rightarrow> Answer \<Rightarrow> error + bool" where
  "answerMissing (DoubleBlank ex) answer =
     (case answer of AArray t \<Rightarrow> Inr (JNull \<in> set t) | _ \<Rightarrow> Inr True)"
| "answerMissing (TripleBlank ex) answer =
     (case answer of AArray t \<Rightarrow> Inr (JNull \<in> set t) | _ \<Rightarrow> Inr True)"
| "answerMissing (SentenceScramble ex) answer =
     (case answer of
        AArray t \<Rightarrow> Inr (length t \<noteq> length (ss_scrambledWords ex))
      | AString w \<Rightarrow> Inr (length w \<noteq> length (ss_scrambledWords ex))
      | _ \<Rightarrow> Inl TypeError)"
| "answerMissing (DialogueSimulation ex) answer =
     (case answer of AArray t \<Rightarrow> Inr (JNull \<in> set t) | _ \<Rightarrow> Inr True)"
| "answerMissing _ answer = Inr (answer = ANull)"

text \<open>\<open>userAnswers.some((answer, index) => ...)\<close>: holes are skipped, and the first
  entry for which the callback is true ends the loop.\<close>

fun isCheckButtonDisabled_some :: "Exercise list \<Rightarrow> nat \<Rightarrow> Answer list \<Rightarrow> error + bool" where
  "isCheckButtonDisabled_some exs index [] = Inr False"
| "isCheckButtonDisabled_some exs index (answer # rest) =
     (if answer = AHole then isCheckButtonDisabled_some exs (Suc index) rest
      else case (case exercise_at exs index of
                   None \<Rightarrow> Inr True
                 | Some exercise \<Rightarrow> answerMissing exercise answer) of
             Inl e \<Rightarrow> Inl e
           | Inr True \<Rightarrow> Inr True
           | Inr False \<Rightarrow> isCheckButtonDisabled_some exs (Suc index) rest)"

definition isCheckButtonDisabled :: "Exercise list \<Rightarrow> AppState \<Rightarrow> error + bool" where
  "isCheckButtonDisabled currentExercises s =
     (if currentExercises = [] then Inr True
      else isCheckButtonDisabled_some currentExercises 0 (userAnswers s))"

section \<open>Option annotations\<close>

text \<open>\<open>getOptionClassName(option, exerciseIndex, blankIndex?)\<close>.\<close>

definition getOptionClassName ::
  "Exercise list \<Rightarrow> string \<Rightarrow> nat \<Rightarrow> nat option \<Rightarrow> AppState \<Rightarrow> error + string" where
  "getOptionClassName currentExercises option exerciseIndex blankIndex s =
     (if \<not> checked s then
        (let answer = array_get (userAnswers s) exerciseIndex in
         case (blankIndex, answer) of
           (Some bi, AArray t) \<Rightarrow> Inr (if slot_get t bi = JString option then ''selected'' else [])
         | _ \<Rightarrow> Inr (if answer = AString option then ''selected'' else []))
      else
        case exercise_at currentExercises exerciseIndex of
          None \<Rightarrow> Inl TypeError
        | Some exercise \<Rightarrow>
            (case exercise of
               SingleBlank ex \<Rightarrow>
                 Inr (if option = sb_correctAnswer ex then ''correct''
                      else if array_get (userAnswers s) exerciseIndex = AString option
                           then ''incorrect'' else [])
             | ImageAssociation ex \<Rightarrow>
                 Inr (if option = ia_correctAnswer ex then ''correct''
                      else if array_get (userAnswers s) exerciseIndex = AString option
                           then ''incorrect'' else [])
             | DoubleBlank ex \<Rightarrow>
                 (case blankIndex of
                    None \<Rightarrow> Inr []
                  | Some bi \<Rightarrow>
                      let correctBlank =
                            (if bi = 0 then db_correctAnswer1 ex else db_correctAnswer2 ex)
                      in Inr (if option = correctBlank then ''correct''
                              else case array_get (userAnswers s) exerciseIndex of
                                     AArray t \<Rightarrow>
                                       if slot_get t bi = JString option then ''incorrect'' else []
                                   | _ \<Rightarrow> []))
             | TripleBlank ex \<Rightarrow>
                 (case blankIndex of
                    None \<Rightarrow> Inr []
                  | Some bi \<Rightarrow>
                      let correctBlank =
                            (if bi = 0 then tb_correctAnswer1 ex
                             else if bi = 1 then tb_correctAnswer2 ex
                             else tb_correctAnswer3 ex)
                      in Inr (if option = correctBlank then ''correct''
                              else case array_get (userAnswers s) exerciseIndex of
                                     AArray t \<Rightarrow>
                                       if slot_get t bi = JString option then ''incorrect'' else []
                                   | _ \<Rightarrow> []))
             | _ \<Rightarrow> Inr []))"

text \<open>
  \<open>getDialogueOptionClassName(option, exerciseIndex, userTurnIndex)\<close>. The learner's
  slot is read first, whatever \<open>checked\<close> is. The exercise is cast to a dialogue, not
  tested: on another variant \<open>exercise.dialogue\<close> is \<open>undefined\<close> and \<open>filter\<close> throws.
\<close>

definition getDialogueOptionClassName ::
  "Exercise list \<Rightarrow> string \<Rightarrow> nat \<Rightarrow> nat \<Rightarrow> AppState \<Rightarrow> error + string" where
  "getDialogueOptionClassName currentExercises option exerciseIndex userTurnIndex s =
     (case answer_slot (array_get (userAnswers s) exerciseIndex) userTurnIndex of
        Inl e \<Rightarrow> Inl e
      | Inr userAnswer \<Rightarrow>
          if \<not> checked s then Inr (if userAnswer = JString option then ''selected'' else [])
          else
            (case exercise_at currentExercises exerciseIndex of
               Some (DialogueSimulation exercise) \<Rightarrow>
                 (if userTurnIndex < length (userTurns exercise) then
                    let userTurn = userTurns exercise ! userTurnIndex
                    in Inr (if JString option = opt_val (correctAnswer userTurn) then ''correct''
                            else if userAnswer = JString option then ''incorrect'' else [])
                  else Inl TypeError)
             | _ \<Rightarrow> Inl TypeError))"

section \<open>Lesson selection and content loading\<close>

text \<open>
  \<open>handleSelectLesson\<close> returns the new state and the request it hands to \<open>fetch\<close>, if
  any. The promise settles later, as an event of its own: \<open>fetchResolved\<close> is the
  \<open>then\<close> callback followed by \<open>finally\<close>, \<open>fetchFailed\<close> is \<open>catch\<close> followed by
  \<open>finally\<close>.

  \<open>loadedLessons\<close> is a plain object used as a dictionary, created by \<open>{}\<close> and by
  \<open>{...prev, [lessonId]: lessonData}\<close>: its own entries are the map, and
  \<open>loadedLessons[lessonId]\<close> reads the own entry if there is one, else the property
  of that name inherited from \<open>Object.prototype\<close>, else \<open>undefined\<close>. A stored lesson
  is an object and the inherited properties are functions (for \<open>__proto__\<close>, the
  prototype itself), so both are truthy. In \<open>getCurrentExercises\<close> an inherited
  property has no \<open>content\<close>, which gives the empty exercise list as a missing entry
  does.
\<close>

definition objectPrototypeKeys :: "string list" where
  "objectPrototypeKeys =
     [''constructor'', ''hasOwnProperty'', ''isPrototypeOf'', ''propertyIsEnumerable'',
      ''toLocaleString'', ''toString'', ''valueOf'', ''__proto__'',
      ''__defineGetter__'', ''__defineSetter__'', ''__lookupGetter__'', ''__lookupSetter__'']"

text \<open>The truth value of \<open>loadedLessons[lessonId]\<close>.\<close>

definition lessonTruthy :: "(string \<rightharpoonup> Lesson) \<Rightarrow> string \<Rightarrow> bool" where
  "lessonTruthy lessons lessonId =
     (case lessons lessonId of
        Some loaded \<Rightarrow> True
      | None \<Rightarrow> lessonId \<in> set objectPrototypeKeys)"

record Fetch =
  req_lessonId :: string
  req_file :: string

definition findLessonInfo :: "AppData option \<Rightarrow> string \<Rightarrow> Lesson option" where
  "findLessonInfo ad lessonId =
     (case ad of
        None \<Rightarrow> None
      | Some d \<Rightarrow>
          (case find (\<lambda>l. list_ex (\<lambda>les. les_id les = lessonId) (lev_lessons l)) (levels d) of
             None \<Rightarrow> None
           | Some level \<Rightarrow> find (\<lambda>l. les_id l = lessonId) (lev_lessons level)))"

definition handleSelectLesson :: "string \<Rightarrow> AppState \<Rightarrow> AppState \<times> Fetch option" where
  "handleSelectLesson lessonId s =
     (let s1 = s\<lparr>selectedLessonId := Some lessonId, checked := False, score := 0,
                 lessonView := selection, visibleTranslations := Map.empty,
                 visibleHints := Map.empty, view := ViewLesson\<rparr>
      in if lessonTruthy (loadedLessons s) lessonId then (s1, None)
         else
           (case findLessonInfo (appData s) lessonId of
              None \<Rightarrow> (s1, None)
            | Some lessonInfo \<Rightarrow>
                (case les_file lessonInfo of
                   None \<Rightarrow> (s1, None)
                 | Some file \<Rightarrow>
                     if file = [] then (s1, None)
                     else (s1\<lparr>loadingLesson := True\<rparr>,
                           Some \<lparr>req_lessonId = lessonId, req_file = file\<rparr>))))"

definition fetchResolved :: "Fetch \<Rightarrow> Lesson \<Rightarrow> AppState \<Rightarrow> AppState" where
  "fetchResolved rq lessonData s =
     s\<lparr>loadedLessons := (loadedLessons s)(req_lessonId rq \<mapsto> lessonData),
       loadingLesson := False\<rparr>"

definition fetchFailed :: "AppState \<Rightarrow> AppState" where
  "fetchFailed s = s\<lparr>loadingLesson := False\<rparr>"

definition handleSelectLevel :: "string \<Rightarrow> AppState \<Rightarrow> AppState" where
  "handleSelectLevel levelId s = s\<lparr>selectedLevelId := Some levelId, view := ViewLessons\<rparr>"

definition handleGoToLevels :: "AppState \<Rightarrow> AppState" where
  "handleGoToLevels s = s\<lparr>selectedLevelId := None, selectedLessonId := None, view := ViewLevels\<rparr>"

definition handleGoToLessons :: "AppState \<Rightarrow> AppState" where
  "handleGoToLessons s = s\<lparr>selectedLessonId := None, view := ViewLessons\<rparr>"

text \<open>
  The application together with the fetches in flight, and the events that move it:
  the navigation handlers and the settling of the fetch at a position of the list. The
  breadcrumbs are rendered whatever \<open>loadingLesson\<close> is, so the learner can go back to
  the lesson list while a lesson is loading.
\<close>

record World =
  app :: AppState
  inFlight :: "Fetch list"

datatype Event =
    SelectLevel string | SelectLesson string | GoToLevels | GoToLessons
  | FetchResolved nat Lesson | FetchFailed nat

fun step :: "Event \<Rightarrow> World \<Rightarrow> World" where
  "step (SelectLevel levelId) w = w\<lparr>app := handleSelectLevel levelId (app w)\<rparr>"
| "step (SelectLesson lessonId) w =
     (case handleSelectLesson lessonId (app w) of
        (s', None) \<Rightarrow> w\<lparr>app := s'\<rparr>
      | (s', Some rq) \<Rightarrow> w\<lparr>app := s', inFlight := inFlight w @ [rq]\<rparr>)"
| "step GoToLevels w = w\<lparr>app := handleGoToLevels (app w)\<rparr>"
| "step GoToLessons w = w\<lparr>app := handleGoToLessons (app w)\<rparr>"
| "step (FetchResolved k lessonData) w =
     (if k < length (inFlight w)
      then w\<lparr>app := fetchResolved (inFlight w ! k) lessonData (app w),
             inFlight := splice1 (inFlight w) k\<rparr>
      else w)"
| "step (FetchFailed k) w =
     (if k < length (inFlight w)
      then w\<lparr>app := fetchFailed (app w), inFlight := splice1 (inFlight w) k\<rparr>
      else w)"

text \<open>The events of a list, one after another.\<close>

definition run :: "Event list \<Rightarrow> World \<Rightarrow> World" where
  "run events w = fold step events w"

section \<open>Initial state and example content\<close>

text \<open>The initial values of the \<open>useState\<close> cells.\<close>

definition initialState :: AppState where
  "initialState =
     \<lparr>appData = None, loadingLesson = False, loadedLessons = Map.empty, view = ViewLevels,
      selectedLevelId = None, selectedLessonId = None, lessonView = selection,
      userAnswers = [], checked = False, score = 0,
      visibleTranslations = Map.empty, visibleHints = Map.empty\<rparr>"

text \<open>One exercise of each kind used below as concrete input.\<close>

definition singleDemo :: Exercise where
  "singleDemo = SingleBlank
     \<lparr>sb_sentence = ''Ich ___ Anna.'', sb_englishSentence = ''I am Anna.'', sb_hint = ''sein'',
      sb_options = [''bin'', ''bist''], sb_correctAnswer = ''bin''\<rparr>"

definition doubleDemo :: Exercise where
  "doubleDemo = DoubleBlank
     \<lparr>db_sentence = ''Ich ___(1)___ eine ___(2)___.'', db_englishSentence = ''I am a woman.'',
      db_hint = ''sein'', db_options1 = [''bin'', ''bist''], db_correctAnswer1 = ''bin'',
      db_options2 = [''Frau'', ''Mann''], db_correctAnswer2 = ''Frau''\<rparr>"

definition tripleDemo :: Exercise where
  "tripleDemo = TripleBlank
     \<lparr>tb_sentence = ''___(1)___ ___(2)___ ___(3)___.'', tb_englishSentence = ''You are Tom.'',
      tb_hint = ''sein'', tb_options1 = [''Du'', ''Ich''], tb_correctAnswer1 = ''Du'',
      tb_options2 = [''bin'', ''bist''], tb_correctAnswer2 = ''bist'',
      tb_options3 = [''Tom'', ''Tim''], tb_correctAnswer3 = ''Tom''\<rparr>"

definition scrambleDemo :: Exercise where
  "scrambleDemo = SentenceScramble
     \<lparr>ss_englishSentence = ''I go home'', ss_correctSentence = ''Ich gehe nach Hause'',
      ss_scrambledWords = [''Ich'', ''gehe'', ''nach'', ''Hause'']\<rparr>"

definition agentTurn :: DialogueTurn where
  "agentTurn = \<lparr>speaker = Agent, line = Some ''Hallo!'', prompt = None, options = None,
                 correctAnswer = None\<rparr>"

definition userTurn :: DialogueTurn where
  "userTurn = \<lparr>speaker = User, line = None, prompt = Some ''Greet'',
                options = Some [''Hallo'', ''Nein''], correctAnswer = Some ''Hallo''\<rparr>"

definition dialogueDemo :: Exercise where
  "dialogueDemo = DialogueSimulation
     \<lparr>ds_scenario = ''Cafe'', ds_englishSentence = ''Hello'',
      dialogue = [agentTurn, userTurn, agentTurn]\<rparr>"

definition monologueDemo :: Exercise where
  "monologueDemo = DialogueSimulation
     \<lparr>ds_scenario = ''Cafe'', ds_englishSentence = ''Hello'', dialogue = [agentTurn]\<rparr>"

definition imageDemo :: Exercise where
  "imageDemo = ImageAssociation
     \<lparr>ia_imageUrl = ''dog.png'', ia_englishSentence = ''the dog'',
      ia_options = [''Hund'', ''Katze''], ia_correctAnswer = ''Hund''\<rparr>"

definition demoSet :: "Exercise list" where
  "demoSet = [doubleDemo, scrambleDemo, dialogueDemo, singleDemo]"

definition demoAnswers :: "Answer list" where
  "demoAnswers =
     [AArray [JString ''bin'', JString ''Mann''],
      AArray [JString ''Ich'', JString ''gehe'', JString ''nach'', JString ''Hause''],
      AArray [JString ''Hallo''],
      ANull]"

section \<open>The specification's notions\<close>

text \<open>
  The shape of an answer for an exercise: a choice or nothing for single-blank and
  image-association, a tuple of two or three optional choices, a sequence of words, a
  tuple of optional choices with one slot for each user turn.
\<close>

fun isSlot :: "jsval \<Rightarrow> bool" where
  "isSlot JUndefined = False"
| "isSlot _ = True"

fun isWord :: "jsval \<Rightarrow> bool" where
  "isWord (JString w) = True"
| "isWord _ = False"

fun matchesShape :: "Exercise \<Rightarrow> Answer \<Rightarrow> bool" where
  "matchesShape (DoubleBlank ex) a =
     (case a of AArray t \<Rightarrow> length t = 2 \<and> list_all isSlot t | _ \<Rightarrow> False)"
| "matchesShape (TripleBlank ex) a =
     (case a of AArray t \<Rightarrow> length t = 3 \<and> list_all isSlot t | _ \<Rightarrow> False)"
| "matchesShape (SentenceScramble ex) a =
     (case a of AArray t \<Rightarrow> list_all isWord t | _ \<Rightarrow> False)"
| "matchesShape (DialogueSimulation ex) a =
     (case a of
        AArray t \<Rightarrow> length t = length (userTurns ex) \<and> list_all isSlot t
      | _ \<Rightarrow> False)"
| "matchesShape _ a = (case a of ANull \<Rightarrow> True | AString c \<Rightarrow> True | _ \<Rightarrow> False)"

text \<open>Words joined with single spaces.\<close>

definition joinWords :: "string list \<Rightarrow> string" where
  "joinWords ws = (case ws of [] \<Rightarrow> [] | w # rest \<Rightarrow> w @ concat (map (\<lambda>v. '' '' @ v) rest))"

text \<open>
  Dialogue correctness in the specification's words: walk the dialogue in its original
  order; an agent turn consumes no slot; each user turn consumes the next slot, which
  must equal that turn's correct choice.
\<close>

fun dialogueCorrect :: "DialogueTurn list \<Rightarrow> jsval list \<Rightarrow> bool" where
  "dialogueCorrect [] slots = True"
| "dialogueCorrect (turn # turns) slots =
     (if speaker turn = User then
        (case slots of
           [] \<Rightarrow> False
         | slot # rest \<Rightarrow> slot = opt_val (correctAnswer turn) \<and> dialogueCorrect turns rest)
      else dialogueCorrect turns slots)"

text \<open>An exercise graded fully correct, variant by variant, in the specification's words.\<close>

fun fullyCorrect :: "Exercise \<Rightarrow> Answer \<Rightarrow> bool" where
  "fullyCorrect (SingleBlank ex) a = (a = AString (sb_correctAnswer ex))"
| "fullyCorrect (ImageAssociation ex) a = (a = AString (ia_correctAnswer ex))"
| "fullyCorrect (DoubleBlank ex) a =
     (a = AArray [JString (db_correctAnswer1 ex), JString (db_correctAnswer2 ex)])"
| "fullyCorrect (TripleBlank ex) a =
     (a = AArray [JString (tb_correctAnswer1 ex), JString (tb_correctAnswer2 ex),
                  JString (tb_correctAnswer3 ex)])"
| "fullyCorrect (SentenceScramble ex) a =
     (case a of
        AArray t \<Rightarrow> joinWords (map elem_str t) = ss_correctSentence ex
      | _ \<Rightarrow> False)"
| "fullyCorrect (DialogueSimulation ex) a =
     (case a of AArray t \<Rightarrow> dialogueCorrect (dialogue ex) t | _ \<Rightarrow> False)"

text \<open>A fully formed answer, variant by variant, in the specification's words.\<close>

fun fullyFormed :: "Exercise \<Rightarrow> Answer \<Rightarrow> bool" where
  "fullyFormed (DoubleBlank ex) a =
     (case a of AArray t \<Rightarrow> list_all (\<lambda>slot. slot \<noteq> JNull) t | _ \<Rightarrow> False)"
| "fullyFormed (TripleBlank ex) a =
     (case a of AArray t \<Rightarrow> list_all (\<lambda>slot. slot \<noteq> JNull) t | _ \<Rightarrow> False)"
| "fullyFormed (DialogueSimulation ex) a =
     (case a of AArray t \<Rightarrow> list_all (\<lambda>slot. slot \<noteq> JNull) t | _ \<Rightarrow> False)"
| "fullyFormed (SentenceScramble ex) a =
     (case a of AArray t \<Rightarrow> length t = length (ss_scrambledWords ex) | _ \<Rightarrow> False)"
| "fullyFormed _ a = (a \<noteq> ANull)"

text \<open>
  What the gate needs of a store entry to evaluate it: the entry is there (not a
  hole), and the entry of a sentence-scramble exercise is a sequence, whose \<open>length\<close>
  the gate reads without a test.
\<close>

fun entryTyped :: "Exercise \<Rightarrow> Answer \<Rightarrow> bool" where
  "entryTyped (SentenceScramble ex) a = isArray a"
| "entryTyped _ a = (a \<noteq> AHole)"

text \<open>
  An exercise that the unset answer cannot satisfy: a sentence-scramble whose correct
  sentence is not empty, a dialogue with at least one user turn, any other exercise.
\<close>

fun gradableUnset :: "Exercise \<Rightarrow> bool" where
  "gradableUnset (SentenceScramble ex) = (ss_correctSentence ex \<noteq> [])"
| "gradableUnset (DialogueSimulation ex) = (userTurns ex \<noteq> [])"
| "gradableUnset _ = True"

text \<open>One handler after another; an error ends the sequence.\<close>

fun andThen :: "error + 'a \<Rightarrow> ('a \<Rightarrow> error + 'b) \<Rightarrow> error + 'b" where
  "andThen (Inl e) f = Inl e"
| "andThen (Inr x) f = f x"

text \<open>
  The annotation of an option after checking, in the specification's words: correct
  iff the option is the key of its position, else incorrect iff it is the learner's
  selection at that position, else neutral (no class).
\<close>

definition annotation :: "string option \<Rightarrow> string option \<Rightarrow> string \<Rightarrow> string" where
  "annotation key selected option =
     (if key = Some option then ''correct''
      else if selected = Some option then ''incorrect'' else [])"

text \<open>The learner's selection: the whole answer, or the slot at a position.\<close>

fun chosen :: "jsval \<Rightarrow> string option" where
  "chosen (JString c) = Some c"
| "chosen _ = None"

fun choiceOf :: "Answer \<Rightarrow> string option" where
  "choiceOf (AString c) = Some c"
| "choiceOf _ = None"

fun slotChoice :: "Answer \<Rightarrow> nat \<Rightarrow> string option" where
  "slotChoice (AArray t) k = chosen (slot_get t k)"
| "slotChoice _ k = None"

text \<open>A catalog with one level and one lesson, whose content is in a file.\<close>

definition lessonInfoDemo :: Lesson where
  "lessonInfoDemo =
     \<lparr>les_id = ''l1'', les_name = ''Lektion 1'', les_description = ''Start'', les_icon = ''1'',
      les_file = Some ''l1.json'', les_content = None\<rparr>"

definition appDataDemo :: AppData where
  "appDataDemo =
     \<lparr>levels = [\<lparr>lev_id = ''a1'', lev_name = ''A1'', lev_description = ''Start'',
                  lev_icon = ''A'', lev_lessons = [lessonInfoDemo]\<rparr>]\<rparr>"

definition worldDemo :: World where
  "worldDemo = \<lparr>app = initialState\<lparr>appData := Some appDataDemo\<rparr>, inFlight = []\<rparr>"

text \<open>Two answers of the server for the same file.\<close>

definition lessonDataA :: Lesson where
  "lessonDataA = lessonInfoDemo\<lparr>les_name := ''A''\<rparr>"

definition lessonDataB :: Lesson where
  "lessonDataB = lessonInfoDemo\<lparr>les_name := ''B''\<rparr>"

section \<open>Auxiliary facts\<close>

subsection \<open>Unfolding the example content\<close>

lemmas demo_defs = demoSet_def demoAnswers_def singleDemo_def doubleDemo_def tripleDemo_def
  scrambleDemo_def dialogueDemo_def monologueDemo_def imageDemo_def agentTurn_def userTurn_def
  userTurns_def

subsection \<open>Arrays\<close>

lemma exercise_at_append: "exercise_at (pre @ ex # exs) (length pre) = Some ex"
  by (simp add: exercise_at_def)

lemma exercise_at_extra: "i < length exs \<Longrightarrow> exercise_at (exs @ extra) i = exercise_at exs i"
  by (simp add: exercise_at_def nth_append)

subsection \<open>Grading\<close>

lemma forEach_count:
  "length answers \<le> length exs \<Longrightarrow>
   checkAnswers_forEach (pre @ exs) (length pre) answers n =
     Inr (n + length (filter (\<lambda>(ex, a). a \<noteq> AHole \<and> gradeExercise ex a) (zip exs answers)))"
proof (induction answers arbitrary: exs pre n)
  case Nil
  then show ?case by simp
next
  case (Cons a answers)
  then obtain ex exs' where exs: "exs = ex # exs'" by (cases exs) auto
  with Cons.prems have len: "length answers \<le> length exs'" by simp
  have step: "checkAnswers_forEach ((pre @ [ex]) @ exs') (length (pre @ [ex])) answers m =
     Inr (m + length (filter (\<lambda>(ex, a). a \<noteq> AHole \<and> gradeExercise ex a) (zip exs' answers)))" for m
    using Cons.IH [OF len] by blast
  show ?case
    using step exercise_at_append [of pre ex exs'] by (simp add: exs)
qed

lemma join_Cons: "join sep (x # xs) = elem_str x @ concat (map (\<lambda>v. sep @ elem_str v) xs)"
  by (induction xs arbitrary: x) simp_all

lemma join_words: "join '' '' t = joinWords (map elem_str t)"
  by (cases t) (simp_all add: joinWords_def join_Cons comp_def)

lemma every_nth: "every p xs i = (\<forall>k < length xs. p (xs ! k) (i + k))"
proof (induction xs arbitrary: i)
  case (Cons x xs)
  show ?case by (auto simp: Cons.IH less_Suc_eq_0_disj)
qed simp

lemma dialogueCorrect_filter:
  "length slots = length (filter (\<lambda>turn. speaker turn = User) turns) \<Longrightarrow>
   dialogueCorrect turns slots =
     list_all2 (\<lambda>slot turn. slot = opt_val (correctAnswer turn)) slots
       (filter (\<lambda>turn. speaker turn = User) turns)"
  by (induction turns arbitrary: slots) (auto split: list.splits)

lemma length_two: "length t = 2 \<Longrightarrow> \<exists>a b. t = [a, b]"
  by (cases t; cases "tl t"; auto)

lemma length_three: "length t = 3 \<Longrightarrow> \<exists>a b c. t = [a, b, c]"
  by (cases t; cases "tl t"; cases "tl (tl t)"; auto)

lemma grade_fullyCorrect: "matchesShape ex a \<Longrightarrow> gradeExercise ex a = fullyCorrect ex a"
proof (cases ex)
  case (DoubleBlank d)
  assume "matchesShape ex a"
  with DoubleBlank obtain x y where "a = AArray [x, y]"
    by (auto split: Answer.splits dest: length_two)
  then show ?thesis using DoubleBlank by (auto simp: slot_get_def)
next
  case (TripleBlank d)
  assume "matchesShape ex a"
  with TripleBlank obtain x y z where "a = AArray [x, y, z]"
    by (auto split: Answer.splits dest: length_three)
  then show ?thesis using TripleBlank by (auto simp: slot_get_def)
next
  case (SentenceScramble d)
  assume "matchesShape ex a"
  then show ?thesis using SentenceScramble by (auto split: Answer.splits simp: join_words)
next
  case (DialogueSimulation d)
  assume "matchesShape ex a"
  then show ?thesis using DialogueSimulation
    by (auto split: Answer.splits
             simp: every_nth slot_get_def list_all2_conv_all_nth userTurns_def
                   dialogueCorrect_filter)
qed (auto split: Answer.splits)

lemma shape_not_hole: "matchesShape ex a \<Longrightarrow> a \<noteq> AHole"
  by (cases ex) auto

lemma opt_val_not_null: "JNull \<noteq> opt_val x"
  by (cases x) simp_all

lemma initial_not_correct: "gradableUnset ex \<Longrightarrow> \<not> gradeExercise ex (initialAnswer ex)"
  by (cases ex) (auto simp: slot_get_def neq_Nil_conv opt_val_not_null)

lemma initial_filter:
  "list_all gradableUnset exs \<Longrightarrow>
   filter (\<lambda>(ex, a). a \<noteq> AHole \<and> gradeExercise ex a) (zip exs (map initialAnswer exs)) = []"
  by (induction exs) (auto simp: initial_not_correct)

subsection \<open>Completeness gate\<close>

lemma entryTyped_not_hole: "entryTyped ex a \<Longrightarrow> a \<noteq> AHole"
  by (cases ex) auto

lemma answerMissing_fullyFormed:
  "entryTyped ex a \<Longrightarrow> answerMissing ex a = Inr (\<not> fullyFormed ex a)"
  by (cases ex; cases a) (auto simp: list_all_iff)

lemma some_fullyFormed:
  "list_all2 entryTyped exs answers \<Longrightarrow>
   isCheckButtonDisabled_some (pre @ exs) (length pre) answers =
     Inr (\<not> list_all2 fullyFormed exs answers)"
proof (induction exs answers arbitrary: pre rule: list_all2_induct)
  case Nil
  then show ?case by simp
next
  case (Cons ex exs a answers)
  have "isCheckButtonDisabled_some ((pre @ [ex]) @ exs) (length (pre @ [ex])) answers =
          Inr (\<not> list_all2 fullyFormed exs answers)"
    by (rule Cons.IH)
  then show ?case
    using Cons.hyps(1) exercise_at_append [of pre ex exs]
    by (cases "fullyFormed ex a") (simp_all add: answerMissing_fullyFormed entryTyped_not_hole)
qed

lemma some_extra:
  "index + length answers \<le> length exs \<Longrightarrow>
   isCheckButtonDisabled_some (exs @ extra) index answers =
   isCheckButtonDisabled_some exs index answers"
proof (induction answers arbitrary: index)
  case Nil
  then show ?case by simp
next
  case (Cons a answers)
  then have "index < length exs" "Suc index + length answers \<le> length exs" by simp_all
  then show ?case using Cons.IH [of "Suc index"]
    by (simp add: exercise_at_extra split: sum.splits bool.splits)
qed

lemma some_surplus:
  "\<exists>a \<in> set answers. a \<noteq> AHole \<Longrightarrow> length exs \<le> index \<Longrightarrow>
   isCheckButtonDisabled_some exs index answers = Inr True"
proof (induction answers arbitrary: index)
  case Nil
  then show ?case by simp
next
  case (Cons a answers)
  then show ?case by (cases "a = AHole") (auto simp: exercise_at_def)
qed

lemma some_append:
  "isCheckButtonDisabled_some exs index (xs @ ys) =
     (case isCheckButtonDisabled_some exs index xs of
        Inr False \<Rightarrow> isCheckButtonDisabled_some exs (index + length xs) ys
      | r \<Rightarrow> r)"
proof (induction xs arbitrary: index)
  case Nil
  then show ?case by simp
next
  case (Cons a xs)
  show ?case by (simp add: Cons.IH split: sum.splits option.splits bool.splits)
qed

subsection \<open>Store mutators\<close>
lemma spread_idem: "spread (spread xs) = spread xs"
  by (induction xs) (auto simp: spread_def split: Answer.splits)

lemma spread_no_hole: "AHole \<notin> set xs \<Longrightarrow> spread xs = xs"
  by (induction xs) (auto simp: spread_def split: Answer.splits)

lemma length_spread: "length (spread xs) = length xs"
  by (simp add: spread_def)

lemma spread_update: "v \<noteq> AHole \<Longrightarrow> spread (xs[i := v]) = (spread xs)[i := v]"
  by (cases v) (simp_all add: spread_def map_update)

lemma array_get_update:
  "i < length xs \<Longrightarrow> v \<noteq> AHole \<Longrightarrow> array_get (xs[i := v]) i = v"
  by (cases v) (simp_all add: array_get_def)

lemma array_get_spread: "array_get (spread xs) i = array_get xs i"
  by (auto simp: array_get_def spread_def split: Answer.splits)

lemma array_get_no_hole: "i < length xs \<Longrightarrow> xs ! i \<noteq> AHole \<Longrightarrow> array_get xs i = xs ! i"
  by (cases "xs ! i") (simp_all add: array_get_def)

lemma array_set_in: "i < length xs \<Longrightarrow> array_set h xs i v = xs[i := v]"
  by (simp add: array_set_def)

lemma array_set_idem: "array_set h (array_set h xs i v) i v = array_set h xs i v"
proof (cases "i < length xs")
  case True
  then show ?thesis by (simp add: array_set_def)
next
  case False
  let ?pre = "xs @ replicate (i - length xs) h"
  have len: "length ?pre = i" using False by simp
  have "array_set h xs i v = ?pre @ [v]" using False by (simp add: array_set_def)
  moreover have "array_set h (?pre @ [v]) i v = (?pre @ [v])[i := v]"
    using len by (simp add: array_set_def)
  moreover have "(?pre @ [v])[i := v] = ?pre @ [v]"
    using len by (metis list_update_length)
  ultimately show ?thesis by simp
qed

lemma handleAnswerSelect_plain:
  "\<not> checked s \<Longrightarrow> exercise_at exs i = Some e \<Longrightarrow> \<not> (isBlankTuple e \<and> b \<noteq> None) \<Longrightarrow>
   handleAnswerSelect exs i opt b s =
     Inr (s\<lparr>userAnswers := array_set AHole (spread (userAnswers s)) i (AString opt)\<rparr>)"
  by (cases b; cases "isBlankTuple e") (simp_all add: handleAnswerSelect_def Let_def)

lemma handleAnswerSelect_tuple:
  "\<not> checked s \<Longrightarrow> exercise_at exs i = Some e \<Longrightarrow> isBlankTuple e \<Longrightarrow>
   spread_answer (if truthy (array_get (spread (userAnswers s)) i)
                  then array_get (spread (userAnswers s)) i
                  else AArray (defaultTuple e)) = Inr nt \<Longrightarrow>
   handleAnswerSelect exs i opt (Some bi) s =
     Inr (s\<lparr>userAnswers := array_set AHole (spread (userAnswers s)) i
                (AArray (array_set JUndefined nt bi (JString opt)))\<rparr>)"
  by (simp add: handleAnswerSelect_def Let_def)

lemma handleDialogueAnswer_array:
  "\<not> checked s \<Longrightarrow> array_get (spread (userAnswers s)) i = AArray t \<Longrightarrow>
   handleDialogueAnswer i k c s =
     Inr (s\<lparr>userAnswers := array_set AHole (spread (userAnswers s)) i
                (AArray (array_set JUndefined t k (JString c)))\<rparr>)"
  by (auto simp: handleDialogueAnswer_def Let_def)

lemma handleWordMove_array:
  "\<not> checked s \<Longrightarrow> array_get (spread (userAnswers s)) i = AArray t \<Longrightarrow>
   handleWordMove i w src k s =
     Inr (s\<lparr>userAnswers := array_set AHole (spread (userAnswers s)) i
                (AArray (case src of bank \<Rightarrow> t @ [JString w]
                         | sentence \<Rightarrow> (case k of Some j \<Rightarrow> splice1 t j | None \<Rightarrow> t)))\<rparr>)"
  by (auto simp: handleWordMove_def Let_def)

lemma spread_written:
  "v \<noteq> AHole \<Longrightarrow> spread ((spread xs)[i := v]) = (spread xs)[i := v]"
  by (simp add: spread_update spread_idem)


lemma truthy_spread: "truthy a \<Longrightarrow> \<exists>t. spread_answer a = Inr t"
  by (cases a) auto

lemma select_idem:
  assumes "i < length exs" "i < length (userAnswers s)"
  shows "\<exists>s1. handleAnswerSelect exs i opt b s = Inr s1 \<and> handleAnswerSelect exs i opt b s1 = Inr s1"
proof (cases "checked s")
  case True
  then show ?thesis by (simp add: handleAnswerSelect_def)
next
  case False
  let ?na = "spread (userAnswers s)"
  have ex: "exercise_at exs i = Some (exs ! i)" using assms by (simp add: exercise_at_def)
  have li: "i < length ?na" using assms by (simp add: length_spread)
  show ?thesis
  proof (cases "isBlankTuple (exs ! i) \<and> b \<noteq> None")
    case plain: False
    let ?s1 = "s\<lparr>userAnswers := ?na[i := AString opt]\<rparr>"
    have c1: "\<not> checked ?s1" using False by simp
    have 1: "handleAnswerSelect exs i opt b s = Inr ?s1"
      using handleAnswerSelect_plain [OF False ex plain] li by (simp add: array_set_in)
    have 2: "handleAnswerSelect exs i opt b ?s1 = Inr ?s1"
      using handleAnswerSelect_plain [OF c1 ex plain] li
      by (simp add: array_set_in spread_written)
    show ?thesis using 1 2 by blast
  next
    case tuple: True
    then obtain bi where b: "b = Some bi" by auto
    let ?stored = "array_get ?na i"
    let ?cur = "if truthy ?stored then ?stored else AArray (defaultTuple (exs ! i))"
    obtain nt where nt: "spread_answer ?cur = Inr nt"
      using truthy_spread [of ?stored] by (cases "truthy ?stored") auto
    let ?v = "AArray (array_set JUndefined nt bi (JString opt))"
    let ?s1 = "s\<lparr>userAnswers := ?na[i := ?v]\<rparr>"
    have c1: "\<not> checked ?s1" using False by simp
    have 1: "handleAnswerSelect exs i opt b s = Inr ?s1"
      using handleAnswerSelect_tuple [OF False ex _ nt] tuple li b by (simp add: array_set_in)
    have nt1: "spread_answer (if truthy (array_get (spread (userAnswers ?s1)) i)
                  then array_get (spread (userAnswers ?s1)) i
                  else AArray (defaultTuple (exs ! i))) = Inr (array_set JUndefined nt bi (JString opt))"
      using li by (simp add: spread_written array_get_update)
    have 2: "handleAnswerSelect exs i opt b ?s1 = Inr ?s1"
      using handleAnswerSelect_tuple [OF c1 ex _ nt1] tuple li b
      by (simp add: array_set_in spread_written array_set_idem)
    show ?thesis using 1 2 by blast
  qed
qed

lemma wordMove_returns: "\<exists>s1. handleWordMove i w src k s = Inr s1"
proof (cases "checked s")
  case True
  then show ?thesis by (simp add: handleWordMove_def)
next
  case False
  let ?stored = "array_get (spread (userAnswers s)) i"
  obtain t where "spread_answer (if truthy ?stored then ?stored else AArray []) = Inr t"
    using truthy_spread [of ?stored] by (cases "truthy ?stored") auto
  then show ?thesis using False by (simp add: handleWordMove_def Let_def)
qed

lemma dialogue_idem:
  assumes "i < length (userAnswers s)" "userAnswers s ! i = AArray t"
  shows "\<exists>s1. handleDialogueAnswer i k c s = Inr s1 \<and> handleDialogueAnswer i k c s1 = Inr s1"
proof (cases "checked s")
  case True
  then show ?thesis by (simp add: handleDialogueAnswer_def)
next
  case False
  let ?na = "spread (userAnswers s)"
  have li: "i < length ?na" using assms by (simp add: length_spread)
  have st: "array_get ?na i = AArray t"
    using assms by (simp add: array_get_spread array_get_no_hole)
  let ?v = "AArray (array_set JUndefined t k (JString c))"
  let ?s1 = "s\<lparr>userAnswers := ?na[i := ?v]\<rparr>"
  have c1: "\<not> checked ?s1" using False by simp
  have 1: "handleDialogueAnswer i k c s = Inr ?s1"
    using handleDialogueAnswer_array [OF False st] li by (simp add: array_set_in)
  have st1: "array_get (spread (userAnswers ?s1)) i = ?v"
    using li by (simp add: spread_written array_get_update)
  have 2: "handleDialogueAnswer i k c ?s1 = Inr ?s1"
    using handleDialogueAnswer_array [OF c1 st1] li
    by (simp add: array_set_in spread_written array_set_idem)
  show ?thesis using 1 2 by blast
qed

lemma no_hole_update: "AHole \<notin> set xs \<Longrightarrow> v \<noteq> AHole \<Longrightarrow> AHole \<notin> set (xs[i := v])"
  using set_update_subset_insert [of xs i v] by auto

lemma handleWordMove_stored:
  assumes "\<not> checked s" and "AHole \<notin> set (userAnswers s)"
    and "i < length (userAnswers s)" and "userAnswers s ! i = AArray t"
  shows "handleWordMove i w src k s =
     Inr (s\<lparr>userAnswers := (userAnswers s)[i :=
                AArray (case src of bank \<Rightarrow> t @ [JString w]
                        | sentence \<Rightarrow> (case k of Some j \<Rightarrow> splice1 t j | None \<Rightarrow> t))]\<rparr>)"
proof -
  have sp: "spread (userAnswers s) = userAnswers s"
    using assms(2) by (rule spread_no_hole)
  have st: "array_get (spread (userAnswers s)) i = AArray t"
    using assms(3,4) by (simp add: sp array_get_no_hole)
  show ?thesis
    using handleWordMove_array [OF assms(1) st, of w src k] assms(3)
    by (simp add: sp array_set_in)
qed

subsection \<open>Word bank\<close>

lemma fold_takeFromBank_words: "fold takeFromBank (map JString ws) xs = fold remove1 ws xs"
  by (induction ws arbitrary: xs) simp_all

lemma mset_fold_remove1: "mset (fold remove1 ws xs) = mset xs - mset ws"
  by (induction ws arbitrary: xs) (simp_all add: diff_diff_add)

lemma takeFromBank_commute: "takeFromBank x (takeFromBank y zs) = takeFromBank y (takeFromBank x zs)"
  by (cases x; cases y) (simp_all add: remove1_commute)

lemma bank_perm: "mset t = mset t' \<Longrightarrow> fold takeFromBank t xs = fold takeFromBank t' xs"
proof -
  assume "mset t = mset t'"
  then have "fold takeFromBank t = fold takeFromBank t'"
    by (intro fold_multiset_equiv) (auto simp: fun_eq_iff takeFromBank_commute)
  then show ?thesis by simp
qed

lemma mset_splice1: "k < length t \<Longrightarrow> mset (splice1 t k @ [t ! k]) = mset t"
proof -
  assume k: "k < length t"
  have "mset t = mset (take k t @ t ! k # drop (Suc k) t)"
    by (rule arg_cong [OF id_take_nth_drop [OF k]])
  also have "\<dots> = mset (splice1 t k @ [t ! k])"
    by (simp add: splice1_def)
  finally show ?thesis by simp
qed

lemma splice1_last: "splice1 (t @ [x]) (length t) = t"
  by (simp add: splice1_def)


text \<open>
  The order of the built sequence after a word is removed at position \<open>k\<close> and placed
  again: the word is appended, so the sequence is the one before exactly when every
  word behind position \<open>k\<close> equals the removed one (in particular when \<open>k\<close> is the
  last position).
\<close>

lemma snoc_eq_Cons: "(ys @ [x] = x # ys) = (\<forall>y \<in> set ys. y = x)"
  by (induction ys) auto

lemma word_replaced_order:
  assumes "k < length ws"
  shows "(splice1 ws k @ [ws ! k] = ws) = (\<forall>j. k < j \<and> j < length ws \<longrightarrow> ws ! j = ws ! k)"
proof -
  have ws: "ws = take k ws @ ws ! k # drop (Suc k) ws"
    using assms by (rule id_take_nth_drop)
  have "(splice1 ws k @ [ws ! k] = ws) =
        (take k ws @ (drop (Suc k) ws @ [ws ! k]) = take k ws @ (ws ! k # drop (Suc k) ws))"
    using ws by (simp add: splice1_def)
  also have "\<dots> = (\<forall>y \<in> set (drop (Suc k) ws). y = ws ! k)"
    by (simp add: snoc_eq_Cons)
  also have "\<dots> = (\<forall>j. k < j \<and> j < length ws \<longrightarrow> ws ! j = ws ! k)"
  proof
    assume a: "\<forall>y \<in> set (drop (Suc k) ws). y = ws ! k"
    show "\<forall>j. k < j \<and> j < length ws \<longrightarrow> ws ! j = ws ! k"
    proof (intro allI impI)
      fix j assume j: "k < j \<and> j < length ws"
      then have "ws ! j = drop (Suc k) ws ! (j - Suc k)" by simp
      moreover have "j - Suc k < length (drop (Suc k) ws)" using j by auto
      ultimately have "ws ! j \<in> set (drop (Suc k) ws)" by (metis nth_mem)
      then show "ws ! j = ws ! k" using a by blast
    qed
  next
    assume a: "\<forall>j. k < j \<and> j < length ws \<longrightarrow> ws ! j = ws ! k"
    show "\<forall>y \<in> set (drop (Suc k) ws). y = ws ! k"
    proof
      fix y assume "y \<in> set (drop (Suc k) ws)"
      then obtain n where n: "n < length (drop (Suc k) ws)" "y = drop (Suc k) ws ! n"
        by (metis in_set_conv_nth)
      then have "y = ws ! (Suc k + n)" by simp
      moreover have "k < Suc k + n \<and> Suc k + n < length ws" using n(1) by auto
      ultimately show "y = ws ! k" using a by blast
    qed
  qed
  finally show ?thesis .
qed

lemma word_replaced_order_examples:
  "splice1 [''Ich'', ''gehe''] 0 @ [[''Ich'', ''gehe''] ! 0] = [''gehe'', ''Ich'']"
  "splice1 [''Ich'', ''Ich''] 0 @ [[''Ich'', ''Ich''] ! 0] = [''Ich'', ''Ich'']"
  by (simp_all add: splice1_def)

subsection \<open>Lesson selection\<close>

text \<open>A lesson id that names a property of \<open>Object.prototype\<close> is never fetched.\<close>

lemma select_inherited_key:
  "lessonId \<in> set objectPrototypeKeys \<Longrightarrow> snd (handleSelectLesson lessonId s) = None"
  by (simp add: handleSelectLesson_def lessonTruthy_def split: option.splits)

subsection \<open>Annotations\<close>

lemma chosen_eq: "(chosen v = Some c) = (v = JString c)"
  by (cases v) auto

section \<open>Claims\<close>

text \<open>
  C1. For an exercise set and an answer store of matching shape, \<open>checkAnswers\<close>
  returns, sets the checked flag, and sets the score to the number of exercises that
  are fully correct: the answer string equals the key (single-blank, image
  association); the tuple is the pair, or the triple, of keys (double-blank,
  triple-blank); the built words joined with single spaces are the correct sentence
  (sentence-scramble); walking the dialogue in its original order, each user turn's
  slot, counted over user turns only, equals that turn's correct choice
  (dialogue-simulation).
\<close>

theorem checkAnswers_score:
  assumes "list_all2 matchesShape exs (userAnswers s)"
  shows "checkAnswers exs s =
           Inr (s\<lparr>score := length (filter (\<lambda>(ex, a). fullyCorrect ex a)
                                     (zip exs (userAnswers s))),
                  checked := True\<rparr>)"
proof -
  have len: "length (userAnswers s) \<le> length exs"
    using assms by (simp add: list_all2_lengthD)
  have "\<forall>(ex, a) \<in> set (zip exs (userAnswers s)). matchesShape ex a"
    using assms by (auto simp: list_all2_iff)
  then have "\<forall>(ex, a) \<in> set (zip exs (userAnswers s)).
               (a \<noteq> AHole \<and> gradeExercise ex a) = fullyCorrect ex a"
    using grade_fullyCorrect shape_not_hole by fastforce
  then have "filter (\<lambda>(ex, a). a \<noteq> AHole \<and> gradeExercise ex a) (zip exs (userAnswers s)) =
        filter (\<lambda>(ex, a). fullyCorrect ex a) (zip exs (userAnswers s))"
    by (intro filter_cong) auto
  then show ?thesis
    using forEach_count [OF len, of "[]" 0] by (simp add: checkAnswers_def)
qed

theorem checkAnswers_score_witness:
  "list_all2 matchesShape demoSet demoAnswers
   \<and> checkAnswers demoSet (initialState\<lparr>userAnswers := demoAnswers\<rparr>) =
       Inr (initialState\<lparr>userAnswers := demoAnswers, score := 2, checked := True\<rparr>)"
  using checkAnswers_score [of demoSet "initialState\<lparr>userAnswers := demoAnswers\<rparr>"]
  by (simp add: demo_defs joinWords_def)



text \<open>
  C3, as stated: grading the store that \<open>initializeAnswers\<close> produces yields score 0
  for every exercise set. It fails for a dialogue without user turns: the set holding
  only \<open>monologueDemo\<close> is graded 1 on its initial store.
\<close>

theorem initial_score_counterexample:
  "checkAnswers [monologueDemo] (resetQuiz [monologueDemo] initialState) =
     Inr (initialState\<lparr>userAnswers := [AArray []], score := 1, checked := True\<rparr>)"
  by (simp add: checkAnswers_def resetQuiz_def initializeAnswers_def initialState_def
                exercise_at_def demo_defs)

text \<open>
  C3, amended: when every dialogue of the set has at least one user turn and every
  sentence-scramble has a non-empty correct sentence, grading the store that
  \<open>initializeAnswers\<close> produces returns with score 0, and no exercise is counted
  correct.
\<close>

theorem initial_score_zero:
  assumes "list_all gradableUnset exs"
  shows "checkAnswers exs (resetQuiz exs s) = Inr ((resetQuiz exs s)\<lparr>checked := True\<rparr>)
         \<and> score (resetQuiz exs s) = 0
         \<and> (\<forall>i < length exs. \<not> gradeExercise (exs ! i) (initializeAnswers exs ! i))"
proof -
  have "checkAnswers_forEach exs 0 (map initialAnswer exs) 0 = Inr 0"
    using forEach_count [of "map initialAnswer exs" exs "[]" 0] initial_filter [OF assms] by simp
  moreover have "\<forall>i < length exs. \<not> gradeExercise (exs ! i) (initializeAnswers exs ! i)"
    using assms by (simp add: initializeAnswers_def list_all_length initial_not_correct)
  ultimately show ?thesis
    by (simp add: checkAnswers_def resetQuiz_def initializeAnswers_def)
qed

theorem initial_score_zero_witness:
  "list_all gradableUnset demoSet
   \<and> checkAnswers demoSet (resetQuiz demoSet initialState) =
       Inr (initialState\<lparr>userAnswers := initializeAnswers demoSet, checked := True\<rparr>)"
  using initial_score_zero [of demoSet initialState]
  by (simp add: demo_defs resetQuiz_def initialState_def)

text \<open>
  C4. In the checked state each mutator of the answer store, \<open>handleAnswerSelect\<close>
  (with or without a blank index), \<open>handleWordMove\<close> and \<open>handleDialogueAnswer\<close>,
  returns the state it was given.
\<close>

theorem checked_locks_store:
  assumes "checked s"
  shows "handleAnswerSelect exs i opt b s = Inr s
       \<and> handleWordMove j w src k s = Inr s
       \<and> handleDialogueAnswer l t c s = Inr s"
  using assms by (simp add: handleAnswerSelect_def handleWordMove_def handleDialogueAnswer_def)

theorem checked_locks_store_witness:
  "checked (initialState\<lparr>userAnswers := demoAnswers, checked := True\<rparr>)
   \<and> handleAnswerSelect demoSet 0 ''bist'' (Some 0)
       (initialState\<lparr>userAnswers := demoAnswers, checked := True\<rparr>) =
       Inr (initialState\<lparr>userAnswers := demoAnswers, checked := True\<rparr>)
   \<and> handleWordMove 1 ''Ich'' sentence (Some 0)
       (initialState\<lparr>userAnswers := demoAnswers, checked := True\<rparr>) =
       Inr (initialState\<lparr>userAnswers := demoAnswers, checked := True\<rparr>)
   \<and> handleDialogueAnswer 2 0 ''Nein''
       (initialState\<lparr>userAnswers := demoAnswers, checked := True\<rparr>) =
       Inr (initialState\<lparr>userAnswers := demoAnswers, checked := True\<rparr>)"
  using checked_locks_store [of "initialState\<lparr>userAnswers := demoAnswers, checked := True\<rparr>"
          demoSet 0 "''bist''" "Some 0" 1 "''Ich''" sentence "Some 0" 2 0 "''Nein''"]
  by simp

text \<open>
  C5. For a sentence-scramble exercise whose entry is the built sequence of words
  \<open>ws\<close>, the word bank is the multiset difference of the scrambled-word bag and
  \<open>ws\<close>, and a word move followed by its inverse restores the bank/sequence split,
  that is which words are in the bank and which are placed. Placing a word from the
  bank and then removing it at its position, the last, restores the store itself.
  Removing the word at a position and then placing it again restores the bank and the
  multiset of placed words; the word then stands at the end of the sequence
  (\<open>word_replaced_order\<close> says when that is the sequence it was removed from).
\<close>

theorem word_bank_round_trip:
  assumes "\<not> checked s" and "AHole \<notin> set (userAnswers s)"
    and "i < length (userAnswers s)" and "userAnswers s ! i = AArray (map JString ws)"
  shows "(\<exists>b. bankWords ex (userAnswers s ! i) = Inr b
             \<and> mset b = mset (ss_scrambledWords ex) - mset ws)
       \<and> andThen (handleWordMove i w bank None s)
                  (handleWordMove i w sentence (Some (length ws))) = Inr s
       \<and> (k < length ws \<longrightarrow>
            andThen (handleWordMove i (ws ! k) sentence (Some k) s)
                    (handleWordMove i (ws ! k) bank None) =
              Inr (s\<lparr>userAnswers :=
                       (userAnswers s)[i := AArray (map JString (splice1 ws k @ [ws ! k]))]\<rparr>)
          \<and> bankWords ex (AArray (map JString (splice1 ws k @ [ws ! k]))) =
              bankWords ex (userAnswers s ! i)
          \<and> mset (splice1 ws k @ [ws ! k]) = mset ws)"
proof (intro conjI impI)
  show "\<exists>b. bankWords ex (userAnswers s ! i) = Inr b
            \<and> mset b = mset (ss_scrambledWords ex) - mset ws"
    using assms(4) by (simp add: bankWords_def fold_takeFromBank_words mset_fold_remove1)
next
  let ?t = "map JString ws"
  let ?s1 = "s\<lparr>userAnswers := (userAnswers s)[i := AArray (?t @ [JString w])]\<rparr>"
  have 1: "handleWordMove i w bank None s = Inr ?s1"
    using handleWordMove_stored [OF assms, of w bank None] by simp
  have "handleWordMove i w sentence (Some (length ws)) ?s1 =
          Inr (?s1\<lparr>userAnswers := (userAnswers ?s1)[i := AArray ?t]\<rparr>)"
    using handleWordMove_stored [of ?s1 i "?t @ [JString w]" w sentence "Some (length ws)"]
          assms(1,2,3) splice1_last [of ?t "JString w"]
    by (simp add: no_hole_update)
  moreover have "(userAnswers s)[i := AArray ?t] = userAnswers s"
    using assms(4) by (metis list_update_id)
  ultimately have 2: "handleWordMove i w sentence (Some (length ws)) ?s1 = Inr s"
    by simp
  show "andThen (handleWordMove i w bank None s)
                (handleWordMove i w sentence (Some (length ws))) = Inr s"
    by (simp add: 1 2)
next
  assume k: "k < length ws"
  let ?t = "map JString ws"
  let ?s1 = "s\<lparr>userAnswers := (userAnswers s)[i := AArray (splice1 ?t k)]\<rparr>"
  have 1: "handleWordMove i (ws ! k) sentence (Some k) s = Inr ?s1"
    using handleWordMove_stored [OF assms, of "ws ! k" sentence "Some k"] by simp
  have m: "splice1 ?t k @ [JString (ws ! k)] = map JString (splice1 ws k @ [ws ! k])"
    by (simp add: splice1_def take_map drop_map)
  have "handleWordMove i (ws ! k) bank None ?s1 =
          Inr (?s1\<lparr>userAnswers :=
                    (userAnswers ?s1)[i := AArray (splice1 ?t k @ [JString (ws ! k)])]\<rparr>)"
    using handleWordMove_stored [of ?s1 i "splice1 ?t k" "ws ! k" bank None] assms(1,2,3)
    by (simp add: no_hole_update)
  then have 2: "handleWordMove i (ws ! k) bank None ?s1 =
             Inr (s\<lparr>userAnswers :=
                      (userAnswers s)[i := AArray (map JString (splice1 ws k @ [ws ! k]))]\<rparr>)"
    unfolding m by simp
  show "andThen (handleWordMove i (ws ! k) sentence (Some k) s)
                (handleWordMove i (ws ! k) bank None) =
          Inr (s\<lparr>userAnswers :=
                   (userAnswers s)[i := AArray (map JString (splice1 ws k @ [ws ! k]))]\<rparr>)"
    unfolding 1 andThen.simps by (rule 2)
  show ms: "mset (splice1 ws k @ [ws ! k]) = mset ws"
    using k by (rule mset_splice1)
  have "mset (map JString (splice1 ws k @ [ws ! k])) = mset (map JString ws)"
    using ms by (metis mset_map)
  then have "fold takeFromBank (map JString (splice1 ws k @ [ws ! k])) (ss_scrambledWords ex) =
             fold takeFromBank (map JString ws) (ss_scrambledWords ex)"
    by (rule bank_perm)
  then show "bankWords ex (AArray (map JString (splice1 ws k @ [ws ! k]))) =
          bankWords ex (userAnswers s ! i)"
    unfolding assms(4) bankWords_def by simp
qed

theorem word_bank_round_trip_witness:
  "\<not> checked (initialState\<lparr>userAnswers := [AArray (map JString [''Ich'', ''gehe''])]\<rparr>)
   \<and> AHole \<notin> set [AArray (map JString [''Ich'', ''gehe''])]
   \<and> (\<exists>b. bankWords \<lparr>ss_englishSentence = ''I go home'', ss_correctSentence = ''Ich gehe nach Hause'',
                      ss_scrambledWords = [''Ich'', ''gehe'', ''nach'', ''Hause'']\<rparr>
                    (AArray (map JString [''Ich'', ''gehe''])) = Inr b
            \<and> mset b = mset [''Ich'', ''gehe'', ''nach'', ''Hause''] - mset [''Ich'', ''gehe''])
   \<and> andThen (handleWordMove 0 ''nach'' bank None
                 (initialState\<lparr>userAnswers := [AArray (map JString [''Ich'', ''gehe''])]\<rparr>))
              (handleWordMove 0 ''nach'' sentence (Some (length [''Ich'', ''gehe'']))) =
        Inr (initialState\<lparr>userAnswers := [AArray (map JString [''Ich'', ''gehe''])]\<rparr>)
   \<and> andThen (handleWordMove 0 ''Ich'' sentence (Some 0)
                 (initialState\<lparr>userAnswers := [AArray (map JString [''Ich'', ''gehe''])]\<rparr>))
              (handleWordMove 0 ''Ich'' bank None) =
        Inr (initialState\<lparr>userAnswers := [AArray [JString ''gehe'', JString ''Ich'']]\<rparr>)"
  using word_bank_round_trip
          [of "initialState\<lparr>userAnswers := [AArray (map JString [''Ich'', ''gehe''])]\<rparr>"
              0 "[''Ich'', ''gehe'']"
              "\<lparr>ss_englishSentence = ''I go home'', ss_correctSentence = ''Ich gehe nach Hause'',
                ss_scrambledWords = [''Ich'', ''gehe'', ''nach'', ''Hause'']\<rparr>"
              "''nach''" 0]
  by (simp add: splice1_def initialState_def)

text \<open>
  C6, as stated: applying the same mutation twice gives the same store as applying it
  once, for \<open>setChoice\<close> and for \<open>moveWord\<close>. It fails for \<open>moveWord\<close>: placing
  the same word from the bank twice appends it twice.
\<close>

theorem mutation_idempotent_counterexample:
  "handleWordMove 0 ''Ich'' bank None (initialState\<lparr>userAnswers := [AArray []]\<rparr>) =
     Inr (initialState\<lparr>userAnswers := [AArray [JString ''Ich'']]\<rparr>)
   \<and> andThen (handleWordMove 0 ''Ich'' bank None (initialState\<lparr>userAnswers := [AArray []]\<rparr>))
              (handleWordMove 0 ''Ich'' bank None) =
     Inr (initialState\<lparr>userAnswers := [AArray [JString ''Ich'', JString ''Ich'']]\<rparr>)
   \<and> andThen (handleWordMove 0 ''Ich'' bank None (initialState\<lparr>userAnswers := [AArray []]\<rparr>))
              (handleWordMove 0 ''Ich'' bank None) \<noteq>
     handleWordMove 0 ''Ich'' bank None (initialState\<lparr>userAnswers := [AArray []]\<rparr>)"
  by (simp add: handleWordMove_def spread_def array_get_def array_set_def initialState_def)

text \<open>
  C6, amended: for an exercise index valid in the exercise set and in the store,
  choosing the same value twice in a row, with \<open>handleAnswerSelect\<close> (with or without
  a blank index) or, on an entry that is a tuple, with \<open>handleDialogueAnswer\<close>, gives
  the store that choosing it once gives; these calls return, and \<open>handleWordMove\<close>
  returns as well. (A repeated word move is applied again each time.)
\<close>

theorem choice_idempotent:
  assumes "i < length exs" and "i < length (userAnswers s)"
  shows "(\<exists>s1. handleAnswerSelect exs i opt b s = Inr s1
               \<and> handleAnswerSelect exs i opt b s1 = Inr s1)
       \<and> (isArray (userAnswers s ! i) \<longrightarrow>
            (\<exists>s1. handleDialogueAnswer i k c s = Inr s1
                   \<and> handleDialogueAnswer i k c s1 = Inr s1))
       \<and> (\<exists>s1. handleWordMove i w src p s = Inr s1)"
proof (intro conjI impI)
  show "\<exists>s1. handleAnswerSelect exs i opt b s = Inr s1
             \<and> handleAnswerSelect exs i opt b s1 = Inr s1"
    using assms by (rule select_idem)
next
  assume "isArray (userAnswers s ! i)"
  then obtain t where "userAnswers s ! i = AArray t"
    by (cases "userAnswers s ! i") auto
  with assms(2) show "\<exists>s1. handleDialogueAnswer i k c s = Inr s1
                           \<and> handleDialogueAnswer i k c s1 = Inr s1"
    by (rule dialogue_idem)
next
  show "\<exists>s1. handleWordMove i w src p s = Inr s1"
    by (rule wordMove_returns)
qed

theorem choice_idempotent_witness:
  "(0::nat) < length demoSet \<and> 0 < length demoAnswers
   \<and> (\<exists>s1. handleAnswerSelect demoSet 0 ''bist'' (Some 0)
               (initialState\<lparr>userAnswers := demoAnswers\<rparr>) = Inr s1
           \<and> handleAnswerSelect demoSet 0 ''bist'' (Some 0) s1 = Inr s1)
   \<and> (\<exists>s1. handleDialogueAnswer 0 1 ''Mann''
               (initialState\<lparr>userAnswers := demoAnswers\<rparr>) = Inr s1
           \<and> handleDialogueAnswer 0 1 ''Mann'' s1 = Inr s1)"
  using choice_idempotent [of 0 demoSet "initialState\<lparr>userAnswers := demoAnswers\<rparr>"
                              "''bist''" "Some 0" 1 "''Mann''"]
  by (simp add: demoSet_def demoAnswers_def)

text \<open>
  C7. After checking, at a valid exercise index: an option of a single-blank or
  image-association exercise, of blank \<open>k\<close> of a double-blank (\<open>k < 2\<close>) or
  triple-blank (\<open>k < 3\<close>) exercise, or of user turn \<open>k\<close> of a dialogue whose entry is a
  tuple, is annotated \<open>correct\<close> iff it is the key of that position, else \<open>incorrect\<close>
  iff it is the learner's selection at that position, else not at all. So the key is
  annotated \<open>correct\<close> whether or not the learner selected it.
\<close>

theorem annotations_after_check:
  assumes "checked s" and "i < length exs"
  shows "(\<forall>ex. exs ! i = SingleBlank ex \<longrightarrow>
            getOptionClassName exs option i None s =
              Inr (annotation (Some (sb_correctAnswer ex))
                     (choiceOf (array_get (userAnswers s) i)) option))
       \<and> (\<forall>ex. exs ! i = ImageAssociation ex \<longrightarrow>
            getOptionClassName exs option i None s =
              Inr (annotation (Some (ia_correctAnswer ex))
                     (choiceOf (array_get (userAnswers s) i)) option))
       \<and> (\<forall>ex k. exs ! i = DoubleBlank ex \<and> k < 2 \<longrightarrow>
            getOptionClassName exs option i (Some k) s =
              Inr (annotation (Some ([db_correctAnswer1 ex, db_correctAnswer2 ex] ! k))
                     (slotChoice (array_get (userAnswers s) i) k) option))
       \<and> (\<forall>ex k. exs ! i = TripleBlank ex \<and> k < 3 \<longrightarrow>
            getOptionClassName exs option i (Some k) s =
              Inr (annotation
                     (Some ([tb_correctAnswer1 ex, tb_correctAnswer2 ex, tb_correctAnswer3 ex] ! k))
                     (slotChoice (array_get (userAnswers s) i) k) option))
       \<and> (\<forall>ex k. exs ! i = DialogueSimulation ex \<and> k < length (userTurns ex)
                  \<and> isArray (array_get (userAnswers s) i) \<longrightarrow>
            getDialogueOptionClassName exs option i k s =
              Inr (annotation (correctAnswer (userTurns ex ! k))
                     (slotChoice (array_get (userAnswers s) i) k) option))"
proof -
  have ex: "exercise_at exs i = Some (exs ! i)"
    using assms(2) by (simp add: exercise_at_def)
  have single: "getOptionClassName exs option i None s =
              Inr (annotation (Some (sb_correctAnswer e))
                     (choiceOf (array_get (userAnswers s) i)) option)"
    if "exs ! i = SingleBlank e" for e
    using that assms(1) ex
    by (cases "array_get (userAnswers s) i") (auto simp: getOptionClassName_def annotation_def)
  have image: "getOptionClassName exs option i None s =
              Inr (annotation (Some (ia_correctAnswer e))
                     (choiceOf (array_get (userAnswers s) i)) option)"
    if "exs ! i = ImageAssociation e" for e
    using that assms(1) ex
    by (cases "array_get (userAnswers s) i") (auto simp: getOptionClassName_def annotation_def)
  have double: "getOptionClassName exs option i (Some k) s =
              Inr (annotation (Some ([db_correctAnswer1 e, db_correctAnswer2 e] ! k))
                     (slotChoice (array_get (userAnswers s) i) k) option)"
    if "exs ! i = DoubleBlank e" "k < 2" for e k
  proof -
    from that(2) have "k = 0 \<or> k = 1" by auto
    then show ?thesis
      using that(1) assms(1) ex
      by (cases "array_get (userAnswers s) i")
         (auto simp: getOptionClassName_def annotation_def chosen_eq)
  qed
  have triple: "getOptionClassName exs option i (Some k) s =
              Inr (annotation
                     (Some ([tb_correctAnswer1 e, tb_correctAnswer2 e, tb_correctAnswer3 e] ! k))
                     (slotChoice (array_get (userAnswers s) i) k) option)"
    if "exs ! i = TripleBlank e" "k < 3" for e k
  proof -
    from that(2) have "k = 0 \<or> k = 1 \<or> k = 2" by auto
    then show ?thesis
      using that(1) assms(1) ex
      by (cases "array_get (userAnswers s) i")
         (auto simp: getOptionClassName_def annotation_def chosen_eq)
  qed
  have dlg: "getDialogueOptionClassName exs option i k s =
              Inr (annotation (correctAnswer (userTurns e ! k))
                     (slotChoice (array_get (userAnswers s) i) k) option)"
    if "exs ! i = DialogueSimulation e" "k < length (userTurns e)"
       "isArray (array_get (userAnswers s) i)" for e k
  proof -
    from that(3) obtain t where t: "array_get (userAnswers s) i = AArray t"
      by (cases "array_get (userAnswers s) i") auto
    show ?thesis
      using that(1,2) assms(1) ex t
      by (cases "correctAnswer (userTurns e ! k)")
         (auto simp: getDialogueOptionClassName_def annotation_def chosen_eq)
  qed
  show ?thesis using single image double triple dlg by blast
qed

theorem annotations_after_check_witness:
  "checked (initialState\<lparr>userAnswers := demoAnswers, checked := True\<rparr>)
   \<and> (0::nat) < length demoSet
   \<and> getOptionClassName demoSet ''Frau'' 0 (Some 1)
       (initialState\<lparr>userAnswers := demoAnswers, checked := True\<rparr>) = Inr ''correct''
   \<and> getOptionClassName demoSet ''Mann'' 0 (Some 1)
       (initialState\<lparr>userAnswers := demoAnswers, checked := True\<rparr>) = Inr ''incorrect''
   \<and> getOptionClassName demoSet ''bist'' 3 None
       (initialState\<lparr>userAnswers := demoAnswers, checked := True\<rparr>) = Inr []
   \<and> getOptionClassName demoSet ''bin'' 3 None
       (initialState\<lparr>userAnswers := demoAnswers, checked := True\<rparr>) = Inr ''correct''
   \<and> getDialogueOptionClassName demoSet ''Hallo'' 2 0
       (initialState\<lparr>userAnswers := demoAnswers, checked := True\<rparr>) = Inr ''correct''"
  using annotations_after_check
          [of "initialState\<lparr>userAnswers := demoAnswers, checked := True\<rparr>" 0 demoSet "''Frau''"]
        annotations_after_check
          [of "initialState\<lparr>userAnswers := demoAnswers, checked := True\<rparr>" 0 demoSet "''Mann''"]
        annotations_after_check
          [of "initialState\<lparr>userAnswers := demoAnswers, checked := True\<rparr>" 3 demoSet "''bist''"]
        annotations_after_check
          [of "initialState\<lparr>userAnswers := demoAnswers, checked := True\<rparr>" 3 demoSet "''bin''"]
        annotations_after_check
          [of "initialState\<lparr>userAnswers := demoAnswers, checked := True\<rparr>" 2 demoSet "''Hallo''"]
  by (simp add: demo_defs annotation_def array_get_def slot_get_def)

text \<open>
  C8, as stated: selecting a lesson whose content is loaded or whose fetch is in
  flight issues no second fetch for that lesson and overwrites no cached result. It
  fails for a fetch in flight: the handler tests \<open>loadedLessons\<close> only. Selecting
  lesson \<open>l1\<close>, going back to the lesson list and selecting \<open>l1\<close> again before the
  first answer arrives puts two fetches for \<open>l1\<close> in flight, and the second answer
  replaces the entry the first one cached.
\<close>

theorem select_in_flight_counterexample:
  "inFlight (run [SelectLevel ''a1'', SelectLesson ''l1'', GoToLessons, SelectLesson ''l1'']
               worldDemo) =
     [\<lparr>req_lessonId = ''l1'', req_file = ''l1.json''\<rparr>,
      \<lparr>req_lessonId = ''l1'', req_file = ''l1.json''\<rparr>]
   \<and> loadedLessons
       (app (run [SelectLevel ''a1'', SelectLesson ''l1'', GoToLessons, SelectLesson ''l1'',
                  FetchResolved 0 lessonDataA] worldDemo)) ''l1'' = Some lessonDataA
   \<and> loadedLessons
       (app (run [SelectLevel ''a1'', SelectLesson ''l1'', GoToLessons, SelectLesson ''l1'',
                  FetchResolved 0 lessonDataA, FetchResolved 0 lessonDataB] worldDemo)) ''l1'' =
       Some lessonDataB
   \<and> lessonDataA \<noteq> lessonDataB"
  by (simp add: run_def worldDemo_def initialState_def appDataDemo_def lessonInfoDemo_def
                lessonDataA_def lessonDataB_def handleSelectLesson_def lessonTruthy_def objectPrototypeKeys_def
                findLessonInfo_def
                handleSelectLevel_def handleGoToLessons_def fetchResolved_def splice1_def)

text \<open>
  C8, amended: selecting a lesson whose content is already loaded issues no fetch,
  leaves the fetches in flight as they are and leaves the cache \<open>loadedLessons\<close>
  unchanged.
\<close>

theorem select_loaded_no_fetch:
  assumes "loadedLessons (app w) lessonId = Some loaded"
  shows "snd (handleSelectLesson lessonId (app w)) = None
       \<and> inFlight (step (SelectLesson lessonId) w) = inFlight w
       \<and> loadedLessons (app (step (SelectLesson lessonId) w)) = loadedLessons (app w)"
  using assms by (simp add: handleSelectLesson_def lessonTruthy_def)

theorem select_loaded_no_fetch_witness:
  "loadedLessons
     (app (run [SelectLevel ''a1'', SelectLesson ''l1'', FetchResolved 0 lessonDataA, GoToLessons]
             worldDemo)) ''l1'' = Some lessonDataA
   \<and> inFlight (step (SelectLesson ''l1'')
        (run [SelectLevel ''a1'', SelectLesson ''l1'', FetchResolved 0 lessonDataA, GoToLessons]
           worldDemo)) = []
   \<and> loadedLessons (app (step (SelectLesson ''l1'')
        (run [SelectLevel ''a1'', SelectLesson ''l1'', FetchResolved 0 lessonDataA, GoToLessons]
           worldDemo))) ''l1'' = Some lessonDataA"
  using select_loaded_no_fetch
          [of "run [SelectLevel ''a1'', SelectLesson ''l1'', FetchResolved 0 lessonDataA,
                    GoToLessons] worldDemo"
              "''l1''" lessonDataA]
  by (simp add: run_def worldDemo_def initialState_def appDataDemo_def lessonInfoDemo_def
                handleSelectLesson_def lessonTruthy_def objectPrototypeKeys_def
                findLessonInfo_def handleSelectLevel_def
                handleGoToLessons_def fetchResolved_def splice1_def)

text \<open>
  C9. A dialogue without user turns is counted correct whatever its store entry holds
  (any value; a hole is no entry): with it in the set, \<open>checkAnswers\<close> returns a score
  one above the score of the set and store without it. The initial entry of such a
  dialogue is the empty tuple, one such value.
\<close>

theorem zero_user_turns_correct:
  assumes "userTurns d = []" and "a \<noteq> AHole"
    and "length as1 = length es1" and "length as2 \<le> length es2"
  shows "\<exists>n. checkAnswers (es1 @ es2) (s\<lparr>userAnswers := as1 @ as2\<rparr>) =
               Inr (s\<lparr>userAnswers := as1 @ as2, score := n, checked := True\<rparr>)
           \<and> checkAnswers (es1 @ DialogueSimulation d # es2)
               (s\<lparr>userAnswers := as1 @ a # as2\<rparr>) =
               Inr (s\<lparr>userAnswers := as1 @ a # as2, score := n + 1, checked := True\<rparr>)"
proof -
  have g: "gradeExercise (DialogueSimulation d) a" using assms(1) by simp
  have l1: "length (as1 @ as2) \<le> length (es1 @ es2)" using assms by simp
  have l2: "length (as1 @ a # as2) \<le> length (es1 @ DialogueSimulation d # es2)"
    using assms by simp
  let ?n = "length (filter (\<lambda>(ex, a). a \<noteq> AHole \<and> gradeExercise ex a)
                      (zip (es1 @ es2) (as1 @ as2)))"
  have "checkAnswers_forEach (es1 @ es2) 0 (as1 @ as2) 0 = Inr ?n"
    using forEach_count [OF l1, of "[]" 0] by simp
  moreover have "checkAnswers_forEach (es1 @ DialogueSimulation d # es2) 0 (as1 @ a # as2) 0 =
                   Inr (?n + 1)"
    using forEach_count [OF l2, of "[]" 0] g assms(2,3) by simp
  ultimately show ?thesis
    by (intro exI [of _ ?n]) (simp add: checkAnswers_def)
qed

theorem zero_user_turns_correct_witness:
  "userTurns \<lparr>ds_scenario = ''Cafe'', ds_englishSentence = ''Hello'', dialogue = [agentTurn]\<rparr> = []
   \<and> initialAnswer monologueDemo \<noteq> AHole
   \<and> (\<exists>n. checkAnswers [singleDemo] (initialState\<lparr>userAnswers := [ANull]\<rparr>) =
             Inr (initialState\<lparr>userAnswers := [ANull], score := n, checked := True\<rparr>)
         \<and> checkAnswers [singleDemo, monologueDemo]
             (initialState\<lparr>userAnswers := [ANull, initialAnswer monologueDemo]\<rparr>) =
             Inr (initialState\<lparr>userAnswers := [ANull, initialAnswer monologueDemo],
                    score := n + 1, checked := True\<rparr>))"
  using zero_user_turns_correct
          [of "\<lparr>ds_scenario = ''Cafe'', ds_englishSentence = ''Hello'', dialogue = [agentTurn]\<rparr>"
              "initialAnswer monologueDemo" "[ANull]" "[singleDemo]" "[]" "[]" initialState]
  by (simp add: demo_defs)

text \<open>
  C10. The gate runs over the entries of the store, not over the exercises. For a
  non-empty exercise set: exercises beyond the store's length do not change the
  result, so a store with no entry at all enables checking; and when the store has an
  entry (not a hole) at an index where the set has no exercise, the entries before it
  being evaluable, the button is disabled.
\<close>

theorem gate_over_answers:
  "(exs \<noteq> [] \<and> length (userAnswers s) \<le> length exs \<longrightarrow>
      isCheckButtonDisabled (exs @ extra) s = isCheckButtonDisabled exs s)
   \<and> (exs \<noteq> [] \<longrightarrow> isCheckButtonDisabled exs (s\<lparr>userAnswers := []\<rparr>) = Inr False)
   \<and> (exs \<noteq> [] \<and> list_all2 entryTyped exs (take (length exs) (userAnswers s))
        \<and> (\<exists>a \<in> set (drop (length exs) (userAnswers s)). a \<noteq> AHole) \<longrightarrow>
      isCheckButtonDisabled exs s = Inr True)"
proof (intro conjI impI)
  assume "exs \<noteq> [] \<and> length (userAnswers s) \<le> length exs"
  then show "isCheckButtonDisabled (exs @ extra) s = isCheckButtonDisabled exs s"
    using some_extra [of 0 "userAnswers s" exs extra] by (simp add: isCheckButtonDisabled_def)
next
  assume "exs \<noteq> []"
  then show "isCheckButtonDisabled exs (s\<lparr>userAnswers := []\<rparr>) = Inr False"
    by (simp add: isCheckButtonDisabled_def)
next
  assume a: "exs \<noteq> [] \<and> list_all2 entryTyped exs (take (length exs) (userAnswers s))
        \<and> (\<exists>a \<in> set (drop (length exs) (userAnswers s)). a \<noteq> AHole)"
  let ?xs = "take (length exs) (userAnswers s)" and ?ys = "drop (length exs) (userAnswers s)"
  from a have len: "length ?xs = length exs" by (auto dest: list_all2_lengthD)
  have pre: "isCheckButtonDisabled_some exs 0 ?xs = Inr (\<not> list_all2 fullyFormed exs ?xs)"
    using some_fullyFormed [of exs ?xs "[]"] a by simp
  have post: "isCheckButtonDisabled_some exs (length ?xs) ?ys = Inr True"
    using a len by (intro some_surplus) auto
  have "isCheckButtonDisabled_some exs 0 (?xs @ ?ys) = Inr True"
    unfolding some_append [of exs 0 ?xs ?ys] pre using post
    by (cases "list_all2 fullyFormed exs ?xs") simp_all
  then show "isCheckButtonDisabled exs s = Inr True"
    using a by (simp add: isCheckButtonDisabled_def)
qed

theorem gate_over_answers_witness:
  "[singleDemo] \<noteq> []
   \<and> isCheckButtonDisabled ([singleDemo] @ [doubleDemo])
       (initialState\<lparr>userAnswers := [AString ''bin'']\<rparr>) = Inr False
   \<and> isCheckButtonDisabled [singleDemo] (initialState\<lparr>userAnswers := []\<rparr>) = Inr False
   \<and> list_all2 entryTyped [singleDemo] (take (length [singleDemo]) [AString ''bin'', AString ''bin''])
   \<and> isCheckButtonDisabled [singleDemo]
       (initialState\<lparr>userAnswers := [AString ''bin'', AString ''bin'']\<rparr>) = Inr True"
  using gate_over_answers [of "[singleDemo]" "initialState\<lparr>userAnswers := [AString ''bin'']\<rparr>"
                              "[doubleDemo]"]
        gate_over_answers [of "[singleDemo]"
                              "initialState\<lparr>userAnswers := [AString ''bin'', AString ''bin'']\<rparr>"]
  by (simp add: demo_defs isCheckButtonDisabled_def exercise_at_def)

end
